theory Spec2Isabelle
  imports Main
begin

section \<open>The status code catalog\<close>

text \<open>
  The enum \<^verbatim>\<open>StatusCode\<close> of \<^verbatim>\<open>http.status.ts\<close>, one constructor per member, in
  the order of the declaration. A TypeScript numeric enum member is a number at run
  time; \<open>StatusCode_value\<close> gives the number each member is initialised with.
\<close>

datatype StatusCode =
    OK
  | CREATED
  | ACCEPTED
  | NON_AUTHORITATIVE
  | NO_CONTENT
  | RESET_CONTENT
  | PARTIAL_CONTENT
  | MULTIPLE_CHOICES
  | MOVED_PERMANENTLY
  | FOUND
  | SEE_OTHER
  | NOT_MODIFIED
  | TEMPORARY_REDIRECT
  | PERMANENT_REDIRECT
  | BAD_REQUEST
  | UNAUTHORIZED
  | PAYMENT_REQUIRED
  | FORBIDDEN
  | NOT_FOUND
  | METHOD_NOT_ALLOWED
  | NOT_ACCEPTABLE
  | PROXY_AUTH_REQUIRED
  | REQUEST_TIMEOUT
  | CONFLICT
  | GONE
  | LENGTH_REQUIRED
  | PRECONDITION_FAILED
  | PAYLOAD_TOO_LARGE
  | URI_TOO_LONG
  | UNSUPPORTED_MEDIA_TYPE
  | RANGE_NOT_SATISFIABLE
  | EXPECTATION_FAILED
  | IM_A_TEAPOT
  | MISDIRECTED_REQUEST
  | UNPROCESSABLE_CONTENT
  | LOCKED
  | FAILED_DEPENDENCY
  | TOO_EARLY
  | UPGRADE_REQUIRED
  | PRECONDITION_REQUIRED
  | TOO_MANY_REQUESTS
  | REQUEST_HEADER_FIELDS_TOO_LARGE
  | UNAVAILABLE_FOR_LEGAL_REASONS
  | INTERNAL_SERVER_ERROR
  | NOT_IMPLEMENTED
  | BAD_GATEWAY
  | SERVICE_UNAVAILABLE
  | GATEWAY_TIMEOUT
  | HTTP_VERSION_NOT_SUPPORTED
  | VARIANT_ALSO_NEGOTIATES
  | INSUFFICIENT_STORAGE
  | LOOP_DETECTED
  | NOT_EXTENDED
  | NETWORK_AUTH_REQUIRED

primrec StatusCode_value :: "StatusCode \<Rightarrow> int" where
  "StatusCode_value OK = 200"
| "StatusCode_value CREATED = 201"
| "StatusCode_value ACCEPTED = 202"
| "StatusCode_value NON_AUTHORITATIVE = 203"
| "StatusCode_value NO_CONTENT = 204"
| "StatusCode_value RESET_CONTENT = 205"
| "StatusCode_value PARTIAL_CONTENT = 206"
| "StatusCode_value MULTIPLE_CHOICES = 300"
| "StatusCode_value MOVED_PERMANENTLY = 301"
| "StatusCode_value FOUND = 302"
| "StatusCode_value SEE_OTHER = 303"
| "StatusCode_value NOT_MODIFIED = 304"
| "StatusCode_value TEMPORARY_REDIRECT = 307"
| "StatusCode_value PERMANENT_REDIRECT = 308"
| "StatusCode_value BAD_REQUEST = 400"
| "StatusCode_value UNAUTHORIZED = 401"
| "StatusCode_value PAYMENT_REQUIRED = 402"
| "StatusCode_value FORBIDDEN = 403"
| "StatusCode_value NOT_FOUND = 404"
| "StatusCode_value METHOD_NOT_ALLOWED = 405"
| "StatusCode_value NOT_ACCEPTABLE = 406"
| "StatusCode_value PROXY_AUTH_REQUIRED = 407"
| "StatusCode_value REQUEST_TIMEOUT = 408"
| "StatusCode_value CONFLICT = 409"
| "StatusCode_value GONE = 410"
| "StatusCode_value LENGTH_REQUIRED = 411"
| "StatusCode_value PRECONDITION_FAILED = 412"
| "StatusCode_value PAYLOAD_TOO_LARGE = 413"
| "StatusCode_value URI_TOO_LONG = 414"
| "StatusCode_value UNSUPPORTED_MEDIA_TYPE = 415"
| "StatusCode_value RANGE_NOT_SATISFIABLE = 416"
| "StatusCode_value EXPECTATION_FAILED = 417"
| "StatusCode_value IM_A_TEAPOT = 418"
| "StatusCode_value MISDIRECTED_REQUEST = 421"
| "StatusCode_value UNPROCESSABLE_CONTENT = 422"
| "StatusCode_value LOCKED = 423"
| "StatusCode_value FAILED_DEPENDENCY = 424"
| "StatusCode_value TOO_EARLY = 425"
| "StatusCode_value UPGRADE_REQUIRED = 426"
| "StatusCode_value PRECONDITION_REQUIRED = 428"
| "StatusCode_value TOO_MANY_REQUESTS = 429"
| "StatusCode_value REQUEST_HEADER_FIELDS_TOO_LARGE = 431"
| "StatusCode_value UNAVAILABLE_FOR_LEGAL_REASONS = 451"
| "StatusCode_value INTERNAL_SERVER_ERROR = 500"
| "StatusCode_value NOT_IMPLEMENTED = 501"
| "StatusCode_value BAD_GATEWAY = 502"
| "StatusCode_value SERVICE_UNAVAILABLE = 503"
| "StatusCode_value GATEWAY_TIMEOUT = 504"
| "StatusCode_value HTTP_VERSION_NOT_SUPPORTED = 505"
| "StatusCode_value VARIANT_ALSO_NEGOTIATES = 506"
| "StatusCode_value INSUFFICIENT_STORAGE = 507"
| "StatusCode_value LOOP_DETECTED = 508"
| "StatusCode_value NOT_EXTENDED = 510"
| "StatusCode_value NETWORK_AUTH_REQUIRED = 511"

text \<open>
  \<^verbatim>\<open>StatusMessages\<close> is an object literal with computed keys. The entries are kept in
  the order they are written; evaluating the literal defines the properties one after
  the other, a later entry for a key replacing an earlier one. Reading a property that
  the object does not have gives \<^verbatim>\<open>undefined\<close>, which is \<open>None\<close> here.
\<close>

definition StatusMessages_literal :: "(int \<times> string) list" where
  "StatusMessages_literal = [
     (StatusCode_value OK, ''Request succeeded.''),
     (StatusCode_value CREATED, ''Resource created successfully.''),
     (StatusCode_value ACCEPTED, ''Request accepted and is being processed.''),
     (StatusCode_value NON_AUTHORITATIVE, ''Non-authoritative information.''),
     (StatusCode_value RESET_CONTENT, ''Reset content.''),
     (StatusCode_value PARTIAL_CONTENT, ''Partial content delivered.''),
     (StatusCode_value MULTIPLE_CHOICES, ''Multiple choices available.''),
     (StatusCode_value MOVED_PERMANENTLY, ''Resource moved permanently.''),
     (StatusCode_value FOUND, ''Resource found at another location.''),
     (StatusCode_value SEE_OTHER, ''See another resource.''),
     (StatusCode_value NOT_MODIFIED, ''Not modified since last request.''),
     (StatusCode_value TEMPORARY_REDIRECT, ''Temporary redirect.''),
     (StatusCode_value PERMANENT_REDIRECT, ''Permanent redirect.''),
     (StatusCode_value NOT_ACCEPTABLE, ''Not acceptable response format.''),
     (StatusCode_value PROXY_AUTH_REQUIRED, ''Proxy authentication required.''),
     (StatusCode_value LENGTH_REQUIRED, ''Content length header required.''),
     (StatusCode_value PRECONDITION_FAILED, ''Precondition failed.''),
     (StatusCode_value URI_TOO_LONG, ''URI too long.''),
     (StatusCode_value RANGE_NOT_SATISFIABLE, ''Requested range not satisfiable.''),
     (StatusCode_value EXPECTATION_FAILED, ''Expectation failed.''),
     (StatusCode_value IM_A_TEAPOT, ''I'm a teapot.''),
     (StatusCode_value MISDIRECTED_REQUEST, ''Request was misdirected.''),
     (StatusCode_value UNPROCESSABLE_CONTENT, ''Unprocessable content.''),
     (StatusCode_value LOCKED, ''Resource is locked.''),
     (StatusCode_value FAILED_DEPENDENCY, ''Failed dependency.''),
     (StatusCode_value TOO_EARLY, ''Request too early.''),
     (StatusCode_value UPGRADE_REQUIRED, ''Upgrade required.''),
     (StatusCode_value PRECONDITION_REQUIRED, ''Precondition required.''),
     (StatusCode_value REQUEST_HEADER_FIELDS_TOO_LARGE, ''Request header fields too large.''),
     (StatusCode_value UNAVAILABLE_FOR_LEGAL_REASONS, ''Unavailable for legal reasons.''),
     (StatusCode_value HTTP_VERSION_NOT_SUPPORTED, ''HTTP version not supported.''),
     (StatusCode_value VARIANT_ALSO_NEGOTIATES, ''Variant negotiation failed.''),
     (StatusCode_value INSUFFICIENT_STORAGE, ''Insufficient storage.''),
     (StatusCode_value LOOP_DETECTED, ''Loop detected.''),
     (StatusCode_value NOT_EXTENDED, ''Not extended.''),
     (StatusCode_value NETWORK_AUTH_REQUIRED, ''Network authentication required.''),
     (StatusCode_value NO_CONTENT, ''Request succeeded, no content to return.''),
     (StatusCode_value BAD_REQUEST, ''Bad request. Please check your input.''),
     (StatusCode_value UNAUTHORIZED, ''Unauthorized. Please log in.''),
     (StatusCode_value PAYMENT_REQUIRED, ''Payment required.''),
     (StatusCode_value FORBIDDEN, ''Forbidden. You do not have access.''),
     (StatusCode_value NOT_FOUND, ''Resource not found.''),
     (StatusCode_value METHOD_NOT_ALLOWED, ''Method not allowed.''),
     (StatusCode_value REQUEST_TIMEOUT, ''Request timed out.''),
     (StatusCode_value CONFLICT, ''Conflict. This resource already exists or cannot be processed.''),
     (StatusCode_value GONE, ''Resource is gone and will not return.''),
     (StatusCode_value PAYLOAD_TOO_LARGE, ''Request payload too large.''),
     (StatusCode_value UNSUPPORTED_MEDIA_TYPE, ''Unsupported media type.''),
     (StatusCode_value TOO_MANY_REQUESTS, ''Too many requests. Please try again later.''),
     (StatusCode_value INTERNAL_SERVER_ERROR, ''Internal server error.''),
     (StatusCode_value NOT_IMPLEMENTED, ''Feature not implemented.''),
     (StatusCode_value BAD_GATEWAY, ''Bad gateway.''),
     (StatusCode_value SERVICE_UNAVAILABLE, ''Server is currently unavailable or overloaded.''),
     (StatusCode_value GATEWAY_TIMEOUT, ''Server gateway timed out.'')]"

definition StatusMessages :: "int \<Rightarrow> string option" where
  "StatusMessages = fold (\<lambda>(k, v) obj. obj(k \<mapsto> v)) StatusMessages_literal Map.empty"

section \<open>JavaScript values and truthiness\<close>

text \<open>
  The payload has type \<^verbatim>\<open>T | null\<close> with \<^verbatim>\<open>T = any\<close>: an arbitrary JavaScript value.
  Numbers are represented by the integers and \<^verbatim>\<open>NaN\<close>; \<open>ToBoolean\<close> is the conversion
  that an \<^verbatim>\<open>if (x)\<close> applies to its condition.
\<close>

datatype jsval =
    JUndefined
  | JNull
  | JBool bool
  | JNum int
  | JNaN
  | JStr string
  | JArr "jsval list"
  | JObj "(string \<times> jsval) list"

primrec ToBoolean :: "jsval \<Rightarrow> bool" where
  "ToBoolean JUndefined = False"
| "ToBoolean JNull = False"
| "ToBoolean (JBool b) = b"
| "ToBoolean (JNum n) = (n \<noteq> 0)"
| "ToBoolean JNaN = False"
| "ToBoolean (JStr s) = (s \<noteq> [])"
| "ToBoolean (JArr xs) = True"
| "ToBoolean (JObj ps) = True"

section \<open>The response status value\<close>

text \<open>The interface \<^verbatim>\<open>IStatus\<close>, which the class \<^verbatim>\<open>Status\<close> implements field by field.\<close>

record IStatus =
  code :: int
  success :: bool
  message :: string
  payload :: jsval

text \<open>
  \<^verbatim>\<open>Partial<IStatus<T>>\<close>: every property may be missing. \<open>None\<close> is a property that is
  absent or \<^verbatim>\<open>undefined\<close> (destructuring reads both as \<^verbatim>\<open>undefined\<close>).
\<close>

record PartialIStatus =
  p_code :: "int option"
  p_success :: "bool option"
  p_message :: "string option"
  p_payload :: "jsval option"

text \<open>
  The built-in \<^verbatim>\<open>Error\<close> carries a name and a message; \<^verbatim>\<open>IHttpError\<close> extends it with
  a numeric code.
\<close>

record Error =
  err_name :: string
  err_message :: string

record IHttpError = Error +
  err_code :: int

text \<open>The constructor: the state of \<^verbatim>\<open>new Status()\<close>.\<close>

definition Status :: IStatus where
  "Status = \<lparr>code = 400, success = False, message = [], payload = JNull\<rparr>"

text \<open>
  The private method \<^verbatim>\<open>set\<close>: each of the two properties is assigned only when the
  value read from the argument is truthy.
\<close>

definition set_status :: "PartialIStatus \<Rightarrow> IStatus \<Rightarrow> IStatus" where
  "set_status options this =
     (let this1 = (case p_message options of
                     None \<Rightarrow> this
                   | Some m \<Rightarrow> if ToBoolean (JStr m) then this\<lparr>message := m\<rparr> else this);
          this2 = (case p_payload options of
                     None \<Rightarrow> this1
                   | Some p \<Rightarrow> if ToBoolean p then this1\<lparr>payload := p\<rparr> else this1)
      in this2)"

definition successStatus :: "int \<Rightarrow> jsval \<Rightarrow> IStatus \<Rightarrow> IStatus" where
  "successStatus success_code payload_arg this =
     set_status
       \<lparr>p_code = None, p_success = None,
        p_message = StatusMessages success_code, p_payload = Some payload_arg\<rparr>
       (this\<lparr>code := success_code, success := True\<rparr>)"

definition errorStatus :: "int \<Rightarrow> IStatus \<Rightarrow> IStatus" where
  "errorStatus error_code this =
     set_status
       \<lparr>p_code = None, p_success = None,
        p_message = StatusMessages error_code, p_payload = None\<rparr>
       (this\<lparr>code := error_code, success := False, payload := JNull\<rparr>)"

definition ERR :: "int \<Rightarrow> IStatus" where
  "ERR error_code = (let status = Status in errorStatus error_code status)"

definition SUCCESS :: "int \<Rightarrow> jsval \<Rightarrow> IStatus" where
  "SUCCESS success_code payload_arg =
     (let status = Status in successStatus success_code payload_arg status)"

definition error :: "IHttpError \<Rightarrow> IStatus \<Rightarrow> IStatus" where
  "error err this =
     set_status
       \<lparr>p_code = None, p_success = None,
        p_message = Some (err_message err), p_payload = None\<rparr>
       (this\<lparr>code := err_code err, success := False, payload := JNull\<rparr>)"

definition successOK :: "PartialIStatus \<Rightarrow> IStatus \<Rightarrow> IStatus" where
  "successOK options this =
     set_status options (this\<lparr>code := StatusCode_value OK, success := True\<rparr>)"

definition genericError :: "'a Error_scheme \<Rightarrow> IStatus \<Rightarrow> IStatus" where
  "genericError err this =
     set_status
       \<lparr>p_code = None, p_success = None,
        p_message = Some (err_message err), p_payload = None\<rparr>
       (this\<lparr>code := StatusCode_value INTERNAL_SERVER_ERROR, success := False,
          payload := JNull\<rparr>)"

section \<open>Sequences of populating calls\<close>

text \<open>
  A caller may invoke the populating methods any number of times on one instance. A
  \<open>call\<close> names one invocation with its arguments, \<open>perform\<close> dispatches it to the
  method, and \<open>run\<close> performs a list of calls from left to right.
\<close>

datatype call =
    SuccessStatus int jsval
  | SuccessOK PartialIStatus
  | ErrorStatus int
  | ErrorCall IHttpError
  | GenericError Error

primrec perform :: "call \<Rightarrow> IStatus \<Rightarrow> IStatus" where
  "perform (SuccessStatus c p) this = successStatus c p this"
| "perform (SuccessOK options) this = successOK options this"
| "perform (ErrorStatus c) this = errorStatus c this"
| "perform (ErrorCall err) this = error err this"
| "perform (GenericError err) this = genericError err this"

definition run :: "call list \<Rightarrow> IStatus \<Rightarrow> IStatus" where
  "run calls this = fold perform calls this"

text \<open>
  The specification calls a code a valid HTTP status code when it lies in the range
  100 to 599 (section 6). The source has no such check; the predicate only states
  properties of the \<open>code\<close> field.
\<close>

definition valid_http_status_code :: "int \<Rightarrow> bool" where
  "valid_http_status_code c = (100 \<le> c \<and> c \<le> 599)"

section \<open>Facts about the catalog\<close>

text \<open>The object that the literal evaluates to, as a chain of updates with numeric keys.\<close>

lemmas StatusMessages_table =
  StatusMessages_def [unfolded StatusMessages_literal_def, simplified]

lemma StatusMessages_hit:
  "\<exists>m. StatusMessages (StatusCode_value c) = Some m \<and> m \<noteq> []"
  by (cases c) (simp_all add: StatusMessages_table)

lemma entry_count:
  "length (filter (\<lambda>(k, v). k = StatusCode_value c) StatusMessages_literal) = 1"
  by (cases c) (simp_all add: StatusMessages_literal_def)

lemma StatusCode_value_range: "100 \<le> StatusCode_value c \<and> StatusCode_value c \<le> 599"
  by (cases c) simp_all

text \<open>A key that no entry of a literal has is not a property of the object.\<close>

lemma fold_upd_other:
  "k \<notin> fst ` set xs \<Longrightarrow> fold (\<lambda>(k, v) obj. obj(k \<mapsto> v)) xs m k = m k"
  by (induction xs arbitrary: m) auto

lemma literal_keys_members: "fst ` set StatusMessages_literal \<subseteq> range StatusCode_value"
  unfolding StatusMessages_literal_def by (auto simp del: StatusCode_value.simps)

lemma StatusMessages_miss:
  assumes "\<forall>sc. StatusCode_value sc \<noteq> c"
  shows "StatusMessages c = None"
proof -
  from assms have "c \<notin> range StatusCode_value" by auto
  with literal_keys_members have "c \<notin> fst ` set StatusMessages_literal" by blast
  then show ?thesis
    unfolding StatusMessages_def by (simp add: fold_upd_other)
qed

section \<open>Facts about the merge helper\<close>

lemma set_status_fields:
  "code (set_status options this) = code this"
  "success (set_status options this) = success this"
  "message (set_status options this) =
     (case p_message options of None \<Rightarrow> message this
      | Some m \<Rightarrow> if m \<noteq> [] then m else message this)"
  "payload (set_status options this) =
     (case p_payload options of None \<Rightarrow> payload this
      | Some p \<Rightarrow> if ToBoolean p then p else payload this)"
  by (simp_all add: set_status_def Let_def split: option.splits)

lemma perform_invariant: "success (perform c s) \<or> payload (perform c s) = JNull"
  by (cases c)
     (simp_all add: successStatus_def successOK_def errorStatus_def error_def genericError_def
        set_status_fields)

section \<open>The claims\<close>

text \<open>
  C1. For every member \<open>c\<close> of \<^verbatim>\<open>StatusCode\<close>, every payload argument \<open>p\<close> and every
  starting state \<open>s\<close>, \<^verbatim>\<open>successStatus(c, p)\<close> sets \<open>code\<close> to \<open>c\<close>, \<open>success\<close> to true and
  \<open>message\<close> to the catalog's message for \<open>c\<close>; \<open>payload\<close> becomes \<open>p\<close> when \<open>p\<close> is
  truthy and keeps its previous value otherwise, in particular when \<open>p\<close> is zero, the
  empty string, false, null or absent.
\<close>

theorem successStatus_effect:
  "code (successStatus (StatusCode_value c) p s) = StatusCode_value c
   \<and> success (successStatus (StatusCode_value c) p s) = True
   \<and> Some (message (successStatus (StatusCode_value c) p s)) = StatusMessages (StatusCode_value c)
   \<and> payload (successStatus (StatusCode_value c) p s) = (if ToBoolean p then p else payload s)
   \<and> payload (successStatus (StatusCode_value c) (JNum 0) s) = payload s
   \<and> payload (successStatus (StatusCode_value c) (JStr []) s) = payload s
   \<and> payload (successStatus (StatusCode_value c) (JBool False) s) = payload s
   \<and> payload (successStatus (StatusCode_value c) JNull s) = payload s
   \<and> payload (successStatus (StatusCode_value c) JUndefined s) = payload s"
proof -
  obtain m where "StatusMessages (StatusCode_value c) = Some m" "m \<noteq> []"
    using StatusMessages_hit by blast
  then show ?thesis
    by (simp add: successStatus_def set_status_fields)
qed

text \<open>
  C2. For every member \<open>c\<close> of \<^verbatim>\<open>StatusCode\<close> and every starting state, \<^verbatim>\<open>errorStatus(c)\<close>
  sets \<open>code\<close> to \<open>c\<close>, \<open>success\<close> to false, \<open>payload\<close> to null whatever it was, and
  \<open>message\<close> to the catalog's message for \<open>c\<close>. For \<^verbatim>\<open>NOT_FOUND\<close> the result is code 404,
  not successful, message "Resource not found.", payload null.
\<close>

theorem errorStatus_effect:
  "code (errorStatus (StatusCode_value c) s) = StatusCode_value c
   \<and> success (errorStatus (StatusCode_value c) s) = False
   \<and> payload (errorStatus (StatusCode_value c) s) = JNull
   \<and> Some (message (errorStatus (StatusCode_value c) s)) = StatusMessages (StatusCode_value c)
   \<and> errorStatus (StatusCode_value NOT_FOUND) s =
       \<lparr>code = 404, success = False, message = ''Resource not found.'', payload = JNull\<rparr>"
proof -
  obtain m where "StatusMessages (StatusCode_value c) = Some m" "m \<noteq> []"
    using StatusMessages_hit by blast
  moreover have "StatusMessages 404 = Some ''Resource not found.''"
    by (simp add: StatusMessages_table)
  ultimately show ?thesis
    by (simp add: errorStatus_def set_status_def)
qed

text \<open>
  C3. The catalog is total over the enumeration: for every member \<open>c\<close> of \<^verbatim>\<open>StatusCode\<close>
  the literal \<^verbatim>\<open>StatusMessages\<close> has exactly one entry with key \<open>c\<close>, and looking \<open>c\<close> up
  gives a string that is not empty.
\<close>

theorem StatusMessages_total:
  "length (filter (\<lambda>(k, v). k = StatusCode_value c) StatusMessages_literal) = 1
   \<and> (\<exists>m. StatusMessages (StatusCode_value c) = Some m \<and> m \<noteq> [])"
  using entry_count StatusMessages_hit by simp

text \<open>
  C4, as amended. After \<^verbatim>\<open>successStatus\<close>, \<^verbatim>\<open>errorStatus\<close>, \<^verbatim>\<open>SUCCESS\<close> or \<^verbatim>\<open>ERR\<close> with a
  member of \<^verbatim>\<open>StatusCode\<close>, and after \<^verbatim>\<open>successOK\<close> or \<^verbatim>\<open>genericError\<close> with any
  argument, \<open>code\<close> is a valid HTTP status code. After \<^verbatim>\<open>error(e)\<close> the field holds the
  code of \<open>e\<close> unchecked, so it is valid exactly when the caller's code is.
\<close>

theorem code_valid_after_populating:
  "valid_http_status_code (code (successStatus (StatusCode_value c) p s))
   \<and> valid_http_status_code (code (successOK options s))
   \<and> valid_http_status_code (code (errorStatus (StatusCode_value c) s))
   \<and> valid_http_status_code (code (genericError e s))
   \<and> valid_http_status_code (code (SUCCESS (StatusCode_value c) p))
   \<and> valid_http_status_code (code (ERR (StatusCode_value c)))
   \<and> code (error h s) = err_code h
   \<and> valid_http_status_code (code (error h s)) = valid_http_status_code (err_code h)"
  using StatusCode_value_range [of c]
  by (simp add: valid_http_status_code_def successStatus_def successOK_def errorStatus_def
      genericError_def SUCCESS_def ERR_def error_def set_status_fields)

text \<open>
  C4 as stated fails: \<^verbatim>\<open>error\<close> accepts any numeric code, and on a fresh instance a
  custom error with code 0 leaves \<open>code\<close> at 0, which is no HTTP status code.
\<close>

theorem error_code_counterexample:
  "\<not> valid_http_status_code
       (code (error \<lparr>err_name = ''Error'', err_message = ''bad'', err_code = 0\<rparr> Status))"
  by (simp add: valid_http_status_code_def error_def set_status_fields)

text \<open>
  C5. For every custom error \<open>e\<close> and every starting state, \<^verbatim>\<open>error(e)\<close> sets \<open>code\<close> to
  the code of \<open>e\<close> as it is, \<open>success\<close> to false and \<open>payload\<close> to null; \<open>message\<close>
  becomes the message of \<open>e\<close> when that is not empty and keeps its previous value
  otherwise. A custom error with code 401 and message "no token" gives code 401, not
  successful, message "no token", payload null.
\<close>

theorem error_effect:
  "code (error e s) = err_code e
   \<and> success (error e s) = False
   \<and> payload (error e s) = JNull
   \<and> message (error e s) = (if err_message e \<noteq> [] then err_message e else message s)
   \<and> error \<lparr>err_name = n, err_message = ''no token'', err_code = 401\<rparr> s =
       \<lparr>code = 401, success = False, message = ''no token'', payload = JNull\<rparr>"
  by (simp add: error_def set_status_def)

text \<open>
  C6. For every error \<open>e\<close> (with or without further properties such as a code) and every
  starting state, \<^verbatim>\<open>genericError(e)\<close> sets \<open>code\<close> to 500, \<open>success\<close> to false and
  \<open>payload\<close> to null; \<open>message\<close> becomes the message of \<open>e\<close> when that is not empty. An
  error with message "boom" gives code 500, not successful, message "boom", payload
  null.
\<close>

theorem genericError_effect:
  "code (genericError e s) = 500
   \<and> success (genericError e s) = False
   \<and> payload (genericError e s) = JNull
   \<and> message (genericError e s) = (if err_message e \<noteq> [] then err_message e else message s)
   \<and> genericError \<lparr>err_name = n, err_message = ''boom''\<rparr> s =
       \<lparr>code = 500, success = False, message = ''boom'', payload = JNull\<rparr>"
  by (simp add: genericError_def set_status_def)

text \<open>
  C7. Each populating method is idempotent: calling \<^verbatim>\<open>successStatus\<close>, \<^verbatim>\<open>successOK\<close>,
  \<^verbatim>\<open>errorStatus\<close>, \<^verbatim>\<open>error\<close> or \<^verbatim>\<open>genericError\<close> twice with the same arguments leaves the
  instance as one call does, for all arguments and every starting state.
\<close>

theorem populating_idempotent:
  "successStatus c p (successStatus c p s) = successStatus c p s
   \<and> successOK options (successOK options s) = successOK options s
   \<and> errorStatus c (errorStatus c s) = errorStatus c s
   \<and> error h (error h s) = error h s
   \<and> genericError e (genericError e s) = genericError e s"
  by (simp add: successStatus_def successOK_def errorStatus_def error_def genericError_def
      set_status_def Let_def split: option.splits)

text \<open>
  C8. For every member \<open>c\<close> of \<^verbatim>\<open>StatusCode\<close> and payload \<open>p\<close>, \<^verbatim>\<open>Status.SUCCESS(c, p)\<close>
  returns what \<^verbatim>\<open>successStatus(c, p)\<close> makes of a fresh instance, and \<^verbatim>\<open>Status.ERR(c)\<close>
  returns what \<^verbatim>\<open>errorStatus(c)\<close> makes of a fresh instance.
\<close>

theorem static_constructors:
  "SUCCESS (StatusCode_value c) p = successStatus (StatusCode_value c) p Status
   \<and> ERR (StatusCode_value c) = errorStatus (StatusCode_value c) Status"
  by (simp add: SUCCESS_def ERR_def)

text \<open>
  C9. For a numeric code \<open>c\<close> that is the value of no member of \<^verbatim>\<open>StatusCode\<close>,
  \<^verbatim>\<open>errorStatus(c)\<close> completes (the method has no failing path; the lookup of a missing
  key yields \<^verbatim>\<open>undefined\<close>): it sets \<open>code\<close> to \<open>c\<close>, \<open>success\<close> to false and \<open>payload\<close>
  to null, and \<open>message\<close> keeps its previous value.
\<close>

theorem errorStatus_unknown_code:
  assumes "\<forall>sc. StatusCode_value sc \<noteq> c"
  shows "StatusMessages c = None
         \<and> code (errorStatus c s) = c
         \<and> success (errorStatus c s) = False
         \<and> payload (errorStatus c s) = JNull
         \<and> message (errorStatus c s) = message s"
  using StatusMessages_miss [OF assms]
  by (simp add: errorStatus_def set_status_fields)

theorem errorStatus_unknown_code_witness:
  "(\<forall>sc. StatusCode_value sc \<noteq> 299)
   \<and> errorStatus 299 \<lparr>code = 200, success = True, message = ''kept'', payload = JNum 7\<rparr> =
       \<lparr>code = 299, success = False, message = ''kept'', payload = JNull\<rparr>"
proof -
  have h: "\<forall>sc. StatusCode_value sc \<noteq> 299"
  proof
    fix sc show "StatusCode_value sc \<noteq> 299" by (cases sc) simp_all
  qed
  show ?thesis
    using h errorStatus_unknown_code
      [OF h, of "\<lparr>code = 200, success = True, message = ''kept'', payload = JNum 7\<rparr>"]
    by (simp add: IStatus.equality)
qed

text \<open>
  C10. In every state reached from a fresh instance by a sequence of populating calls
  (\<^verbatim>\<open>successStatus\<close>, \<^verbatim>\<open>successOK\<close>, \<^verbatim>\<open>errorStatus\<close>, \<^verbatim>\<open>error\<close>, \<^verbatim>\<open>genericError\<close>, with any
  arguments), a false \<open>success\<close> comes with a null \<open>payload\<close>.
\<close>

theorem failure_has_no_payload:
  "\<not> success (run calls Status) \<longrightarrow> payload (run calls Status) = JNull"
proof (cases calls rule: rev_cases)
  case Nil
  then show ?thesis by (simp add: run_def Status_def)
next
  case (snoc cs c)
  then show ?thesis
    using perform_invariant [of c "fold perform cs Status"] by (auto simp add: run_def)
qed

theorem failure_has_no_payload_witness:
  "\<not> success (run [SuccessStatus 201 (JObj [(''id'', JNum 1)]), ErrorStatus 404] Status)
   \<and> payload (run [SuccessStatus 201 (JObj [(''id'', JNum 1)]), ErrorStatus 404] Status) = JNull"
proof -
  have "\<not> success (run [SuccessStatus 201 (JObj [(''id'', JNum 1)]), ErrorStatus 404] Status)"
    by (simp add: run_def errorStatus_def set_status_fields)
  then show ?thesis
    using failure_has_no_payload
      [of "[SuccessStatus 201 (JObj [(''id'', JNum 1)]), ErrorStatus 404]"]
    by blast
qed

end
